theory Spec2Isabelle
  imports Main
begin

section \<open>Python values\<close>

text \<open>
  The publishers and the scheduler of \<^verbatim>\<open>swym_social\<close> exchange plain Python
  dictionaries (publish results, JSON bodies, request payloads). A dictionary is an
  association list in insertion order. A Python \<^verbatim>\<open>str\<close> is a list of characters: one
  list element stands for one code point, which is what \<^verbatim>\<open>len\<close> and slicing count.

  \<open>PyRegistry\<close> is the one non-JSON object that the scheduler touches: the table
  registry (\<^verbatim>\<open>MetaData\<close>) that every SQLAlchemy declarative class carries in its
  reserved class attribute \<^verbatim>\<open>metadata\<close>.
\<close>

datatype pyval =
    PyNone
  | PyBool bool
  | PyInt int
  | PyStr string
  | PyList "pyval list"
  | PyDict "(string \<times> pyval) list"
  | PyRegistry

type_synonym pydict = "(string \<times> pyval) list"

text \<open>\<^verbatim>\<open>str(i)\<close> for an integer: decimal digits, most significant first.\<close>

fun str_nat :: "nat \<Rightarrow> string" where
  "str_nat n = (if n < 10 then [''0123456789'' ! n]
                else str_nat (n div 10) @ [''0123456789'' ! (n mod 10)])"

declare str_nat.simps [simp del]

definition str_int :: "int \<Rightarrow> string" where
  "str_int i = (if i < 0 then ''-'' @ str_nat (nat (- i)) else str_nat (nat i))"

fun join :: "string \<Rightarrow> string list \<Rightarrow> string" where
  "join sep [] = []"
| "join sep [x] = x"
| "join sep (x # y # ys) = x @ sep @ join sep (y # ys)"

text \<open>
  \<^verbatim>\<open>repr\<close>, as far as an f-string needs it. The quoting of a string inside a
  dictionary is always written with single quotes and without escapes.
\<close>

fun py_repr :: "pyval \<Rightarrow> string" where
  "py_repr PyNone = ''None''"
| "py_repr (PyBool b) = (if b then ''True'' else ''False'')"
| "py_repr (PyInt i) = str_int i"
| "py_repr (PyStr s) = [CHR 0x27] @ s @ [CHR 0x27]"
| "py_repr (PyList vs) = ''['' @ join '', '' (map py_repr vs) @ '']''"
| "py_repr (PyDict kvs) =
     ''{'' @ join '', '' (map (\<lambda>kv. [CHR 0x27] @ fst kv @ [CHR 0x27] @ '': '' @ py_repr (snd kv)) kvs) @ ''}''"
| "py_repr PyRegistry = ''MetaData()''"

text \<open>\<^verbatim>\<open>str(v)\<close>, which is what \<^verbatim>\<open>f"{v}"\<close> inserts.\<close>

fun py_str :: "pyval \<Rightarrow> string" where
  "py_str (PyStr s) = s"
| "py_str v = py_repr v"

text \<open>Truthiness, as tested by \<^verbatim>\<open>if v:\<close>, \<^verbatim>\<open>not v\<close> and \<^verbatim>\<open>all([...])\<close>.\<close>

fun py_truthy :: "pyval \<Rightarrow> bool" where
  "py_truthy PyNone = False"
| "py_truthy (PyBool b) = b"
| "py_truthy (PyInt i) = (i \<noteq> 0)"
| "py_truthy (PyStr s) = (s \<noteq> [])"
| "py_truthy (PyList l) = (l \<noteq> [])"
| "py_truthy (PyDict d) = (d \<noteq> [])"
| "py_truthy PyRegistry = True"

text \<open>An optional string (a nullable column, an unset environment variable).\<close>

fun of_opt :: "string option \<Rightarrow> pyval" where
  "of_opt None = PyNone"
| "of_opt (Some s) = PyStr s"

fun type_name :: "pyval \<Rightarrow> string" where
  "type_name PyNone = ''NoneType''"
| "type_name (PyBool _) = ''bool''"
| "type_name (PyInt _) = ''int''"
| "type_name (PyStr _) = ''str''"
| "type_name (PyList _) = ''list''"
| "type_name (PyDict _) = ''dict''"
| "type_name PyRegistry = ''MetaData''"

text \<open>The message of the \<^verbatim>\<open>AttributeError\<close> of a method that an object lacks.\<close>

definition no_attribute :: "pyval \<Rightarrow> string \<Rightarrow> string" where
  "no_attribute obj attr =
     [CHR 0x27] @ type_name obj @ [CHR 0x27] @ '' object has no attribute '' @
     [CHR 0x27] @ attr @ [CHR 0x27]"

text \<open>\<^verbatim>\<open>d.get(k)\<close> on a dictionary that is known to be one.\<close>

definition dict_get :: "pydict \<Rightarrow> string \<Rightarrow> pyval" where
  "dict_get d k = (case map_of d k of None \<Rightarrow> PyNone | Some v \<Rightarrow> v)"

text \<open>
  \<^verbatim>\<open>obj.get(k, default)\<close> on an arbitrary value: only a dictionary has the method,
  anything else raises \<^verbatim>\<open>AttributeError\<close> (\<open>Inl\<close> carries its message).
\<close>

fun py_get :: "pyval \<Rightarrow> string \<Rightarrow> pyval \<Rightarrow> string + pyval" where
  "py_get (PyDict d) k dflt = Inr (case map_of d k of None \<Rightarrow> dflt | Some v \<Rightarrow> v)"
| "py_get obj k dflt = Inl (no_attribute obj ''get'')"

text \<open>\<^verbatim>\<open>d[k] = v\<close>: an existing key keeps its position, a new key goes last.\<close>

fun dict_set :: "pydict \<Rightarrow> string \<Rightarrow> pyval \<Rightarrow> pydict" where
  "dict_set [] k v = [(k, v)]"
| "dict_set (p # ps) k v = (if fst p = k then (k, v) # ps else p # dict_set ps k v)"

text \<open>\<^verbatim>\<open>obj.update(new)\<close>: defined for dictionaries only.\<close>

fun py_update :: "pyval \<Rightarrow> pydict \<Rightarrow> string + pyval" where
  "py_update (PyDict d) new = Inr (PyDict (fold (\<lambda>kv acc. dict_set acc (fst kv) (snd kv)) new d))"
| "py_update obj new = Inl (no_attribute obj ''update'')"

section \<open>Data model (\<^verbatim>\<open>app/models/content.py\<close>)\<close>

datatype ContentStatus = DRAFT | APPROVED | SCHEDULED | PUBLISHED | FAILED | REJECTED

datatype Platform = LINKEDIN | TWITTER | INSTAGRAM | YOUTUBE

fun platform_value :: "Platform \<Rightarrow> string" where
  "platform_value LINKEDIN = ''linkedin''"
| "platform_value TWITTER = ''twitter''"
| "platform_value INSTAGRAM = ''instagram''"
| "platform_value YOUTUBE = ''youtube''"

text \<open>A \<^verbatim>\<open>datetime\<close> is a point on an integer time line.\<close>

type_synonym datetime = int

text \<open>
  The columns of \<^verbatim>\<open>Post\<close> that the scheduler and the publishers read or write
  (\<open>pid\<close> is the column \<^verbatim>\<open>id\<close>). \<open>external_id\<close> and \<open>external_url\<close> hold what
  \<^verbatim>\<open>publish_post\<close> takes out of a result dictionary, a string or \<^verbatim>\<open>None\<close>. The JSON
  column is called \<^verbatim>\<open>meta_data\<close>; the class declares no attribute \<^verbatim>\<open>metadata\<close> of
  its own.
\<close>

record Post =
  pid :: int
  text_content :: string
  image_path :: "string option"
  status :: ContentStatus
  platform :: Platform
  scheduled_time :: "datetime option"
  published_time :: "datetime option"
  external_id :: pyval
  external_url :: pyval
  meta_data :: "pydict option"

text \<open>
  \<^verbatim>\<open>post.metadata\<close>: \<^verbatim>\<open>Post\<close> has no such column, so the attribute lookup ends in the
  declarative base class, whose \<^verbatim>\<open>metadata\<close> is the table registry. (The other
  modules of the repository, \<^verbatim>\<open>agents/classifier.py\<close> and
  \<^verbatim>\<open>api/endpoints/content.py\<close>, read and write \<^verbatim>\<open>meta_data\<close>.)
\<close>

definition getattr_metadata :: "Post \<Rightarrow> pyval" where
  "getattr_metadata post = PyRegistry"

section \<open>Configuration (\<^verbatim>\<open>app/config.py\<close>)\<close>

text \<open>The credentials of \<^verbatim>\<open>Settings\<close>: each is an environment variable that may be unset.\<close>

record Settings =
  LINKEDIN_ACCESS_TOKEN :: "string option"
  TWITTER_API_KEY :: "string option"
  TWITTER_API_SECRET :: "string option"
  TWITTER_ACCESS_TOKEN :: "string option"
  TWITTER_ACCESS_SECRET :: "string option"
  INSTAGRAM_CLIENT_ID :: "string option"
  INSTAGRAM_CLIENT_SECRET :: "string option"
  INSTAGRAM_ACCESS_TOKEN :: "string option"

section \<open>The world outside\<close>

text \<open>
  A call of \<^verbatim>\<open>requests.post\<close>: the fields are the keyword arguments that the
  publishers pass (\<open>PyNone\<close> and \<open>[]\<close> for the ones left out).
\<close>

record http_request =
  req_method :: string
  req_url :: string
  req_headers :: "(string \<times> string) list"
  req_auth :: "(pyval \<times> pyval) option"
  req_data :: pydict
  req_params :: pydict
  req_json :: pyval

text \<open>
  What comes back: \<open>resp_header\<close> is \<^verbatim>\<open>response.headers.get\<close>, \<open>resp_json\<close> is
  \<^verbatim>\<open>response.json()\<close>, which raises on a body that is not JSON.
\<close>

record http_response =
  status_code :: int
  resp_text :: string
  resp_header :: "string \<Rightarrow> string option"
  resp_json :: "string + pyval"

text \<open>
  Everything a call depends on beyond its arguments and the stored state: the network
  (\<open>Inl\<close> is the message of the exception that \<^verbatim>\<open>requests\<close> raised), the file
  system (\<^verbatim>\<open>os.path.exists\<close>), the clock (\<^verbatim>\<open>datetime.utcnow()\<close> and its
  \<^verbatim>\<open>isoformat()\<close>), the parser \<^verbatim>\<open>datetime.fromisoformat\<close>, and the faults of the two
  stores: \<open>commit_raises\<close> is the message of the exception of \<^verbatim>\<open>session.commit()\<close>,
  \<open>jobstore_raises\<close> the one of the job store behind \<^verbatim>\<open>add_job\<close>,
  \<^verbatim>\<open>reschedule_job\<close> and \<^verbatim>\<open>remove_job\<close>, when there is one.
\<close>

record env =
  settings :: Settings
  net :: "http_request \<Rightarrow> string + http_response"
  path_exists :: "string \<Rightarrow> bool"
  utcnow :: datetime
  isoformat :: "datetime \<Rightarrow> string"
  fromisoformat :: "string \<Rightarrow> string + datetime"
  commit_raises :: "string option"
  jobstore_raises :: "string option"

definition request :: "string \<Rightarrow> string \<Rightarrow> http_request" where
  "request m u = \<lparr>req_method = m, req_url = u, req_headers = [], req_auth = None,
                  req_data = [], req_params = [], req_json = PyNone\<rparr>"

text \<open>\<^verbatim>\<open>post.image_path and os.path.exists(post.image_path)\<close>\<close>

definition has_image :: "env \<Rightarrow> Post \<Rightarrow> bool" where
  "has_image e post = (py_truthy (of_opt (image_path post)) \<and> path_exists e (the (image_path post)))"

section \<open>Publishers (\<^verbatim>\<open>app/services/social_publisher.py\<close>)\<close>

text \<open>
  Every \<^verbatim>\<open>publish\<close> returns its result dictionary together with the requests it sent,
  in order. The scheduler builds each publisher without arguments, so
  \<^verbatim>\<open>x or settings.X\<close> is \<^verbatim>\<open>settings.X\<close>.
\<close>

definition timestamped :: "env \<Rightarrow> string \<Rightarrow> pydict" where
  "timestamped e name = [(''platform'', PyStr name), (''timestamp'', PyStr (isoformat e (utcnow e)))]"

definition failure :: "env \<Rightarrow> string \<Rightarrow> string \<Rightarrow> pydict" where
  "failure e name msg = [(''success'', PyBool False), (''error'', PyStr msg)] @ timestamped e name"

subsection \<open>LinkedIn\<close>

definition linkedin_api_url :: string where
  "linkedin_api_url = ''https://api.linkedin.com/v2''"

definition LinkedInPublisher_publish :: "env \<Rightarrow> Post \<Rightarrow> pydict \<times> http_request list" where
  "LinkedInPublisher_publish e post =
     (let access_token = of_opt (LINKEDIN_ACCESS_TOKEN (settings e)) in
      if \<not> py_truthy access_token then
        ([(''success'', PyBool False), (''error'', PyStr ''LinkedIn access token not configured'')], [])
      else
        let headers = [(''Authorization'', ''Bearer '' @ py_str access_token),
                       (''Content-Type'', ''application/json''),
                       (''X-Restli-Protocol-Version'', ''2.0.0'')];
            post_data = PyDict
              [(''author'', PyStr ''urn:li:person:me''),
               (''lifecycleState'', PyStr ''PUBLISHED''),
               (''specificContent'', PyDict
                  [(''com.linkedin.ugc.ShareContent'', PyDict
                      [(''shareCommentary'', PyDict [(''text'', PyStr (text_content post))]),
                       (''shareMediaCategory'', PyStr (if has_image e post then ''IMAGE'' else ''NONE''))])]),
               (''visibility'', PyDict
                  [(''com.linkedin.ugc.MemberNetworkVisibility'', PyStr ''PUBLIC'')])];
            req = (request ''POST'' (linkedin_api_url @ ''/ugcPosts''))
                    \<lparr>req_headers := headers, req_json := post_data\<rparr>
        in case net e req of
             Inl exn \<Rightarrow> (failure e ''linkedin'' exn, [req])
           | Inr response \<Rightarrow>
               if status_code response = 201 then
                 let post_id = of_opt (resp_header response ''x-restli-id'') in
                 ([(''success'', PyBool True),
                   (''post_id'', post_id),
                   (''post_url'', PyStr (''https://www.linkedin.com/feed/update/'' @ py_str post_id))]
                  @ timestamped e ''linkedin'', [req])
               else
                 (failure e ''linkedin''
                    (''LinkedIn API error: '' @ str_int (status_code response) @ '' - '' @ resp_text response),
                  [req]))"

subsection \<open>Twitter\<close>

definition twitter_api_url :: string where
  "twitter_api_url = ''https://api.twitter.com/2''"

text \<open>\<^verbatim>\<open>_get_bearer_token\<close>: the token, or \<^verbatim>\<open>None\<close> after any failure.\<close>

definition get_bearer_token :: "env \<Rightarrow> pyval \<times> http_request list" where
  "get_bearer_token e =
     (let req = (request ''POST'' ''https://api.twitter.com/oauth2/token'')
                  \<lparr>req_auth := Some (of_opt (TWITTER_API_KEY (settings e)),
                                     of_opt (TWITTER_API_SECRET (settings e))),
                   req_data := [(''grant_type'', PyStr ''client_credentials'')]\<rparr>
      in case net e req of
           Inl exn \<Rightarrow> (PyNone, [req])
         | Inr response \<Rightarrow>
             if status_code response = 200 then
               (case resp_json response of
                  Inl exn \<Rightarrow> (PyNone, [req])
                | Inr body \<Rightarrow>
                    (case py_get body ''access_token'' PyNone of
                       Inl exn \<Rightarrow> (PyNone, [req])
                     | Inr token \<Rightarrow> (token, [req])))
             else (PyNone, [req]))"

text \<open>The local variable \<^verbatim>\<open>tweet_text\<close> of \<^verbatim>\<open>TwitterPublisher.publish\<close>.\<close>

definition tweet_text :: "Post \<Rightarrow> string" where
  "tweet_text post =
     (if length (text_content post) > 280 then take 277 (text_content post) @ ''...''
      else text_content post)"

definition twitter_configured :: "env \<Rightarrow> bool" where
  "twitter_configured e =
     list_all py_truthy
       [of_opt (TWITTER_API_KEY (settings e)), of_opt (TWITTER_API_SECRET (settings e)),
        of_opt (TWITTER_ACCESS_TOKEN (settings e)), of_opt (TWITTER_ACCESS_SECRET (settings e))]"

definition TwitterPublisher_publish :: "env \<Rightarrow> Post \<Rightarrow> pydict \<times> http_request list" where
  "TwitterPublisher_publish e post =
     (if \<not> twitter_configured e then
        ([(''success'', PyBool False), (''error'', PyStr ''Twitter API credentials not configured'')], [])
      else
        let (bearer_token, sent) = get_bearer_token e in
        if \<not> py_truthy bearer_token then
          ([(''success'', PyBool False), (''error'', PyStr ''Failed to authenticate with Twitter'')], sent)
        else
          let headers = [(''Authorization'', ''Bearer '' @ py_str bearer_token),
                         (''Content-Type'', ''application/json'')];
              post_data = [(''text'', PyStr (tweet_text post))] @
                          (if has_image e post
                           then [(''media'', PyDict [(''media_ids'', PyList [PyStr ''placeholder_media_id''])])]
                           else []);
              req = (request ''POST'' (twitter_api_url @ ''/tweets''))
                      \<lparr>req_headers := headers, req_json := PyDict post_data\<rparr>
          in case net e req of
               Inl exn \<Rightarrow> (failure e ''twitter'' exn, sent @ [req])
             | Inr response \<Rightarrow>
                 if status_code response = 201 then
                   (case resp_json response of
                      Inl exn \<Rightarrow> (failure e ''twitter'' exn, sent @ [req])
                    | Inr body \<Rightarrow>
                        (case py_get body ''data'' (PyDict []) of
                           Inl exn \<Rightarrow> (failure e ''twitter'' exn, sent @ [req])
                         | Inr d \<Rightarrow>
                             (case py_get d ''id'' PyNone of
                                Inl exn \<Rightarrow> (failure e ''twitter'' exn, sent @ [req])
                              | Inr tweet_id \<Rightarrow>
                                  ([(''success'', PyBool True),
                                    (''post_id'', tweet_id),
                                    (''post_url'', PyStr (''https://twitter.com/user/status/'' @ py_str tweet_id))]
                                   @ timestamped e ''twitter'', sent @ [req]))))
                 else
                   (failure e ''twitter''
                      (''Twitter API error: '' @ str_int (status_code response) @ '' - '' @ resp_text response),
                    sent @ [req]))"

subsection \<open>Instagram\<close>

definition instagram_api_url :: string where
  "instagram_api_url = ''https://graph.facebook.com/v18.0''"

definition instagram_configured :: "env \<Rightarrow> bool" where
  "instagram_configured e =
     list_all py_truthy
       [of_opt (INSTAGRAM_CLIENT_ID (settings e)), of_opt (INSTAGRAM_CLIENT_SECRET (settings e)),
        of_opt (INSTAGRAM_ACCESS_TOKEN (settings e))]"

definition InstagramPublisher_publish :: "env \<Rightarrow> Post \<Rightarrow> pydict \<times> http_request list" where
  "InstagramPublisher_publish e post =
     (if \<not> instagram_configured e then
        ([(''success'', PyBool False), (''error'', PyStr ''Instagram API credentials not configured'')], [])
      else if \<not> py_truthy (of_opt (image_path post)) \<or> \<not> path_exists e (the (image_path post)) then
        ([(''success'', PyBool False), (''error'', PyStr ''Instagram posts require an image'')], [])
      else
        let params = [(''access_token'', of_opt (INSTAGRAM_ACCESS_TOKEN (settings e))),
                      (''caption'', PyStr (text_content post)),
                      (''container_id'', PyStr ''placeholder_container_id'')];
            req = (request ''POST'' (instagram_api_url @ ''/me/media_publish''))
                    \<lparr>req_params := params\<rparr>
        in case net e req of
             Inl exn \<Rightarrow> (failure e ''instagram'' exn, [req])
           | Inr response \<Rightarrow>
               if status_code response = 200 then
                 (case resp_json response of
                    Inl exn \<Rightarrow> (failure e ''instagram'' exn, [req])
                  | Inr body \<Rightarrow>
                      (case py_get body ''id'' PyNone of
                         Inl exn \<Rightarrow> (failure e ''instagram'' exn, [req])
                       | Inr post_id \<Rightarrow>
                           ([(''success'', PyBool True),
                             (''post_id'', post_id),
                             (''post_url'', PyStr (''https://www.instagram.com/p/'' @ py_str post_id))]
                            @ timestamped e ''instagram'', [req])))
               else
                 (failure e ''instagram''
                    (''Instagram API error: '' @ str_int (status_code response) @ '' - '' @ resp_text response),
                  [req]))"

section \<open>Scheduler (\<^verbatim>\<open>app/scheduler/post_scheduler.py\<close>)\<close>

text \<open>
  The two stores: the rows of table \<^verbatim>\<open>posts\<close> by id, and the job registry by job id.
  A job holds its trigger time (\<^verbatim>\<open>run_date\<close>) and the arguments of
  \<^verbatim>\<open>publish_post\<close>.
\<close>

record job =
  run_date :: datetime
  args :: "int \<times> Platform"

record state =
  db :: "int \<rightharpoonup> Post"
  jobs :: "string \<rightharpoonup> job"

text \<open>
  \<^verbatim>\<open>session.add(post); session.commit()\<close>: writes the row, or raises and writes
  nothing. An exception is its message.
\<close>

definition commit :: "env \<Rightarrow> state \<Rightarrow> Post \<Rightarrow> string + state" where
  "commit e st post =
     (case commit_raises e of
        Some exn \<Rightarrow> Inl exn
      | None \<Rightarrow> Inr (st\<lparr>db := (db st)(pid post \<mapsto> post)\<rparr>))"

text \<open>
  The three calls on the job registry. \<^verbatim>\<open>add_job(..., replace_existing=True)\<close> stores
  the job under its id whether or not one is there; \<^verbatim>\<open>reschedule_job\<close> and
  \<^verbatim>\<open>remove_job\<close> raise \<^verbatim>\<open>JobLookupError\<close> for an id without a job.
\<close>

definition JobLookupError :: "string \<Rightarrow> string" where
  "JobLookupError job_id = ''No job by the id of '' @ job_id @ '' was found''"

definition add_job :: "env \<Rightarrow> state \<Rightarrow> string \<Rightarrow> job \<Rightarrow> string + state" where
  "add_job e st job_id j =
     (case jobstore_raises e of
        Some exn \<Rightarrow> Inl exn
      | None \<Rightarrow> Inr (st\<lparr>jobs := (jobs st)(job_id \<mapsto> j)\<rparr>))"

definition reschedule_job :: "env \<Rightarrow> state \<Rightarrow> string \<Rightarrow> datetime \<Rightarrow> string + state" where
  "reschedule_job e st job_id t =
     (case jobstore_raises e of
        Some exn \<Rightarrow> Inl exn
      | None \<Rightarrow>
          (case jobs st job_id of
             None \<Rightarrow> Inl (JobLookupError job_id)
           | Some j \<Rightarrow> Inr (st\<lparr>jobs := (jobs st)(job_id \<mapsto> j\<lparr>run_date := t\<rparr>)\<rparr>)))"

definition remove_job :: "env \<Rightarrow> state \<Rightarrow> string \<Rightarrow> string + state" where
  "remove_job e st job_id =
     (case jobstore_raises e of
        Some exn \<Rightarrow> Inl exn
      | None \<Rightarrow>
          (case jobs st job_id of
             None \<Rightarrow> Inl (JobLookupError job_id)
           | Some j \<Rightarrow> Inr (st\<lparr>jobs := (jobs st)(job_id := None)\<rparr>)))"

text \<open>\<^verbatim>\<open>f"post_{post.id}_{post.platform.value}"\<close>\<close>

definition job_id :: "Post \<Rightarrow> string" where
  "job_id post = ''post_'' @ str_int (pid post) @ ''_'' @ platform_value (platform post)"

text \<open>
  The three operations on a post take the caller's \<^verbatim>\<open>Post\<close> object and return the
  boolean of the source, the object as the call leaves it, and the stores. Each
  \<^verbatim>\<open>try\<close> body runs up to its first exception; \<^verbatim>\<open>except Exception\<close> logs it and
  returns \<^verbatim>\<open>False\<close>.
\<close>

definition schedule_post :: "env \<Rightarrow> state \<Rightarrow> Post \<Rightarrow> datetime \<Rightarrow> bool \<times> Post \<times> state" where
  "schedule_post e st post publish_time =
     (let post' = post\<lparr>status := SCHEDULED, scheduled_time := Some publish_time\<rparr> in
      (case commit e st post' of
        Inl exn \<Rightarrow> (False, post', st)
      | Inr st1 \<Rightarrow>
          (case add_job e st1 (job_id post')
                  \<lparr>run_date = publish_time, args = (pid post', platform post')\<rparr> of
             Inl exn \<Rightarrow> (False, post', st1)
           | Inr st2 \<Rightarrow> (True, post', st2))))"

definition reschedule_post :: "env \<Rightarrow> state \<Rightarrow> Post \<Rightarrow> datetime \<Rightarrow> bool \<times> Post \<times> state" where
  "reschedule_post e st post new_publish_time =
     (let post' = post\<lparr>scheduled_time := Some new_publish_time\<rparr> in
      (case commit e st post' of
        Inl exn \<Rightarrow> (False, post', st)
      | Inr st1 \<Rightarrow>
          (case reschedule_job e st1 (job_id post') new_publish_time of
             Inl exn \<Rightarrow> (False, post', st1)
           | Inr st2 \<Rightarrow> (True, post', st2))))"

definition cancel_post :: "env \<Rightarrow> state \<Rightarrow> Post \<Rightarrow> bool \<times> Post \<times> state" where
  "cancel_post e st post =
     (let post' = post\<lparr>status := DRAFT, scheduled_time := None\<rparr> in
      (case commit e st post' of
        Inl exn \<Rightarrow> (False, post', st)
      | Inr st1 \<Rightarrow>
          (case remove_job e st1 (job_id post') of
             Inl exn \<Rightarrow> (False, post', st1)
           | Inr st2 \<Rightarrow> (True, post', st2))))"

text \<open>\<^verbatim>\<open>self.publishers\<close>: there is no publisher for YouTube.\<close>

fun publishers :: "Platform \<Rightarrow> (env \<Rightarrow> Post \<Rightarrow> pydict \<times> http_request list) option" where
  "publishers LINKEDIN = Some LinkedInPublisher_publish"
| "publishers TWITTER = Some TwitterPublisher_publish"
| "publishers INSTAGRAM = Some InstagramPublisher_publish"
| "publishers YOUTUBE = None"

text \<open>
  \<^verbatim>\<open>publish_post\<close>, the function that a job fires and that the endpoint
  \<^verbatim>\<open>publish_post_now\<close> calls. It reads the row in a session of its own and returns its
  boolean, the stores, and the requests that the publisher sent.

  After the publisher has returned, both branches end the same way: they set the
  status columns on the object, take \<^verbatim>\<open>post.metadata\<close> if it is truthy and an empty
  dictionary otherwise, \<^verbatim>\<open>update\<close> it with the new entries, assign it to
  \<^verbatim>\<open>post.metadata\<close> and commit. The assignment creates an attribute of the object,
  not a column value, so the commit writes the columns of the object as they are. An
  exception anywhere leaves the function through \<^verbatim>\<open>except Exception\<close>, which returns
  \<^verbatim>\<open>False\<close>, and \<^verbatim>\<open>session.close()\<close> drops what was not committed.
\<close>

definition publish_post :: "env \<Rightarrow> state \<Rightarrow> int \<Rightarrow> Platform \<Rightarrow> bool \<times> state \<times> http_request list" where
  "publish_post e st post_id pf =
     (case db st post_id of
        None \<Rightarrow> (False, st, [])
      | Some post \<Rightarrow>
          if status post \<noteq> SCHEDULED \<and> status post \<noteq> APPROVED then (False, st, [])
          else
            (case publishers pf of
               None \<Rightarrow> (False, st, [])
             | Some publish \<Rightarrow>
                 let (result, sent) = publish e post in
                 if py_truthy (dict_get result ''success'') then
                   let post' = post\<lparr>status := PUBLISHED,
                                    published_time := Some (utcnow e),
                                    external_id := dict_get result ''post_id'',
                                    external_url := dict_get result ''post_url''\<rparr>;
                       metadata = (if py_truthy (getattr_metadata post') then getattr_metadata post'
                                   else PyDict [])
                   in (case py_update metadata [(''publish_result'', PyDict result)] of
                         Inl exn \<Rightarrow> (False, st, sent)
                       | Inr metadata' \<Rightarrow>
                           (case commit e st post' of
                              Inl exn \<Rightarrow> (False, st, sent)
                            | Inr st' \<Rightarrow> (True, st', sent)))
                 else
                   let post' = post\<lparr>status := FAILED\<rparr>;
                       metadata = (if py_truthy (getattr_metadata post') then getattr_metadata post'
                                   else PyDict [])
                   in (case py_update metadata
                              [(''publish_error'', dict_get result ''error''),
                               (''publish_attempt'', PyStr (isoformat e (utcnow e)))] of
                         Inl exn \<Rightarrow> (False, st, sent)
                       | Inr metadata' \<Rightarrow>
                           (case commit e st post' of
                              Inl exn \<Rightarrow> (False, st, sent)
                            | Inr st' \<Rightarrow> (False, st', sent)))))"

section \<open>Endpoints (\<^verbatim>\<open>app/api/endpoints/posts.py\<close>)\<close>

text \<open>
  An endpoint answers with a JSON body or raises \<^verbatim>\<open>HTTPException(status_code, detail)\<close>.
  Inside the endpoints every \<^verbatim>\<open>HTTPException\<close> raised in a \<^verbatim>\<open>try\<close> body is caught again
  by \<^verbatim>\<open>except Exception as e\<close>, which rolls the session back (what is committed stays)
  and raises status 500 with \<^verbatim>\<open>str(e)\<close> in the detail; \<open>str_HTTPException\<close> is that
  string.
\<close>

datatype http_result = Response pydict | HTTPException int string

definition str_HTTPException :: "int \<Rightarrow> string \<Rightarrow> string" where
  "str_HTTPException code detail = str_int code @ '': '' @ detail"

definition not_found :: "int \<Rightarrow> http_result" where
  "not_found post_id = HTTPException 404 (''Post with ID '' @ str_int post_id @ '' not found'')"

text \<open>\<^verbatim>\<open>s.replace('Z', '+00:00')\<close>\<close>

definition replace_Z :: "string \<Rightarrow> string" where
  "replace_Z s = concat (map (\<lambda>c. if c = CHR ''Z'' then ''+00:00'' else [c]) s)"

text \<open>\<^verbatim>\<open>POST /{post_id}/schedule\<close> with the JSON body \<open>data\<close>.\<close>

definition schedule_post_endpoint :: "env \<Rightarrow> state \<Rightarrow> int \<Rightarrow> pydict \<Rightarrow> http_result \<times> state" where
  "schedule_post_endpoint e st post_id data =
     (let publish_time_str = dict_get data ''publish_time'' in
      if \<not> py_truthy publish_time_str then (HTTPException 400 ''publish_time is required'', st)
      else
        (case db st post_id of
          None \<Rightarrow> (not_found post_id, st)
        | Some post \<Rightarrow>
            (case publish_time_str of
               PyStr s \<Rightarrow>
                 (case fromisoformat e (replace_Z s) of
                    Inl exn \<Rightarrow> (HTTPException 400 (''Invalid publish_time format: '' @ exn), st)
                  | Inr publish_time \<Rightarrow>
                      let (success, post', st') = schedule_post e st post publish_time in
                      if \<not> success then
                        (HTTPException 500
                           (''Error scheduling post: '' @ str_HTTPException 500 ''Failed to schedule post''),
                         st')
                      else
                        (Response
                           [(''post_id'', PyInt (pid post')),
                            (''platform'', PyStr (platform_value (platform post'))),
                            (''scheduled_time'', PyStr (isoformat e (the (scheduled_time post')))),
                            (''message'', PyStr (''Successfully scheduled post for '' @ s))],
                         st'))
             | v \<Rightarrow> (HTTPException 500 (''Error scheduling post: '' @ no_attribute v ''replace''), st))))"

text \<open>
  \<^verbatim>\<open>POST /{post_id}/publish\<close>: answer, stores, and the requests sent on the way.
  \<^verbatim>\<open>db.refresh(post)\<close> reads the row again and raises when it is gone.
\<close>

definition publish_post_now :: "env \<Rightarrow> state \<Rightarrow> int \<Rightarrow> http_result \<times> state \<times> http_request list" where
  "publish_post_now e st post_id =
     (case db st post_id of
        None \<Rightarrow> (not_found post_id, st, [])
      | Some post \<Rightarrow>
          if status post = PUBLISHED then
            (HTTPException 400 (''Post with ID '' @ str_int post_id @ '' is already published''), st, [])
          else
            let post' = post\<lparr>status := APPROVED\<rparr> in
            (case commit e st post' of
              Inl exn \<Rightarrow> (HTTPException 500 (''Error publishing post: '' @ exn), st, [])
            | Inr st1 \<Rightarrow>
                let (success, st2, sent) = publish_post e st1 (pid post') (platform post') in
                if \<not> success then
                  (HTTPException 500
                     (''Error publishing post: '' @ str_HTTPException 500 ''Failed to publish post''),
                   st2, sent)
                else
                  (case db st2 (pid post') of
                     None \<Rightarrow> (HTTPException 500 ''Error publishing post: Could not refresh instance'', st2, sent)
                   | Some refreshed \<Rightarrow>
                       (Response
                          [(''post_id'', PyInt (pid refreshed)),
                           (''platform'', PyStr (platform_value (platform refreshed))),
                           (''published_time'',
                              (case published_time refreshed of
                                 None \<Rightarrow> PyNone
                               | Some t \<Rightarrow> PyStr (isoformat e t))),
                           (''external_url'', external_url refreshed),
                           (''message'', PyStr ''Successfully published post'')],
                        st2, sent))))"

section \<open>Concrete scenarios\<close>

text \<open>
  The inputs at which the statements below are evaluated. \<open>env_ok\<close> has every
  credential configured, a LinkedIn that answers 201 with the share id
  \<^verbatim>\<open>urn:li:share:123\<close>, no image files, and stores that do not fail.
\<close>

definition settings_all :: Settings where
  "settings_all =
     \<lparr>LINKEDIN_ACCESS_TOKEN = Some ''li-token'',
      TWITTER_API_KEY = Some ''tw-key'', TWITTER_API_SECRET = Some ''tw-secret'',
      TWITTER_ACCESS_TOKEN = Some ''tw-token'', TWITTER_ACCESS_SECRET = Some ''tw-access'',
      INSTAGRAM_CLIENT_ID = Some ''ig-id'', INSTAGRAM_CLIENT_SECRET = Some ''ig-secret'',
      INSTAGRAM_ACCESS_TOKEN = Some ''ig-token''\<rparr>"


definition created_linkedin :: http_response where
  "created_linkedin =
     \<lparr>status_code = 201, resp_text = [],
      resp_header = (\<lambda>h. if h = ''x-restli-id'' then Some ''urn:li:share:123'' else None),
      resp_json = Inl ''Expecting value''\<rparr>"

definition env_ok :: env where
  "env_ok =
     \<lparr>settings = settings_all, net = (\<lambda>r. Inr created_linkedin),
      path_exists = (\<lambda>p. False), utcnow = 3600, isoformat = str_int,
      fromisoformat = (\<lambda>s. if s = ''2030-01-01T00:00:00+00:00'' then Inr 9000
                            else Inl ''Invalid isoformat string''),
      commit_raises = None, jobstore_raises = None\<rparr>"

definition env_jobstore_down :: env where
  "env_jobstore_down = env_ok\<lparr>jobstore_raises := Some ''could not connect to server''\<rparr>"

definition env_commit_down :: env where
  "env_commit_down = env_ok\<lparr>commit_raises := Some ''could not connect to server''\<rparr>"


text \<open>A Twitter that hands out a bearer token and accepts the tweet.\<close>

definition twitter_net :: "http_request \<Rightarrow> string + http_response" where
  "twitter_net r =
     (if req_url r = ''https://api.twitter.com/oauth2/token'' then
        Inr \<lparr>status_code = 200, resp_text = [], resp_header = (\<lambda>h. None),
             resp_json = Inr (PyDict [(''access_token'', PyStr ''bearer'')])\<rparr>
      else
        Inr \<lparr>status_code = 201, resp_text = [], resp_header = (\<lambda>h. None),
             resp_json = Inr (PyDict [(''data'', PyDict [(''id'', PyStr ''1'')])])\<rparr>)"

definition env_twitter :: env where
  "env_twitter = env_ok\<lparr>net := twitter_net\<rparr>"

definition new_post :: "int \<Rightarrow> Platform \<Rightarrow> ContentStatus \<Rightarrow> string \<Rightarrow> Post" where
  "new_post i pf s body =
     \<lparr>pid = i, text_content = body, image_path = None, status = s, platform = pf,
      scheduled_time = None, published_time = None, external_id = PyNone,
      external_url = PyNone, meta_data = None\<rparr>"

text \<open>Post 42 of the LinkedIn scenario: scheduled for time 3600.\<close>

definition post42 :: Post where
  "post42 = (new_post 42 LINKEDIN SCHEDULED ''Hello'')\<lparr>scheduled_time := Some 3600\<rparr>"

text \<open>The stores with one post, without and with its job.\<close>

definition store :: "Post \<Rightarrow> state" where
  "store post = \<lparr>db = [pid post \<mapsto> post], jobs = Map.empty\<rparr>"

definition store_with_job :: "Post \<Rightarrow> datetime \<Rightarrow> state" where
  "store_with_job post t =
     \<lparr>db = [pid post \<mapsto> post],
      jobs = [job_id post \<mapsto> \<lparr>run_date = t, args = (pid post, platform post)\<rparr>]\<rparr>"

text \<open>Further posts: a draft, an approved post without a job, a published post.\<close>

definition draft7 :: Post where
  "draft7 = new_post 7 TWITTER DRAFT ''Hi''"

definition approved5 :: Post where
  "approved5 = new_post 5 TWITTER APPROVED ''Hi''"

definition published9 :: Post where
  "published9 =
     (new_post 9 TWITTER PUBLISHED ''Hi'')
       \<lparr>published_time := Some 100, external_id := PyStr ''1'',
        external_url := PyStr ''https://twitter.com/user/status/1''\<rparr>"


text \<open>A tweet of 300 characters, and an Instagram post without an image.\<close>

definition long3 :: Post where
  "long3 = new_post 3 TWITTER SCHEDULED (replicate 300 CHR ''a'')"


text \<open>
  The request that \<^verbatim>\<open>TwitterPublisher.publish\<close> sends to \<^verbatim>\<open>/tweets\<close> once it holds
  the bearer token \<open>tok\<close>.
\<close>

definition tweet_request :: "env \<Rightarrow> Post \<Rightarrow> pyval \<Rightarrow> http_request" where
  "tweet_request e post tok =
     (request ''POST'' (twitter_api_url @ ''/tweets''))
       \<lparr>req_headers := [(''Authorization'', ''Bearer '' @ py_str tok),
                        (''Content-Type'', ''application/json'')],
        req_json := PyDict
          ([(''text'', PyStr (tweet_text post))] @
           (if has_image e post
            then [(''media'', PyDict [(''media_ids'', PyList [PyStr ''placeholder_media_id''])])]
            else []))\<rparr>"

section \<open>Facts about the model\<close>

lemma publish_post_keeps_state: "fst (snd (publish_post e st i pf)) = st"
  by (simp add: publish_post_def getattr_metadata_def Let_def split: option.splits prod.splits)

lemma publish_post_returns_False: "fst (publish_post e st i pf) = False"
  by (simp add: publish_post_def getattr_metadata_def Let_def split: option.splits prod.splits)

lemma job_id_42: "job_id post42 = ''post_42_linkedin''"
  by (simp add: job_id_def post42_def new_post_def str_int_def str_nat.simps)

lemma LinkedIn_created:
  "LinkedInPublisher_publish env_ok post42 =
     ([(''success'', PyBool True), (''post_id'', PyStr ''urn:li:share:123''),
       (''post_url'', PyStr ''https://www.linkedin.com/feed/update/urn:li:share:123''),
       (''platform'', PyStr ''linkedin''), (''timestamp'', PyStr ''3600'')],
      [(request ''POST'' ''https://api.linkedin.com/v2/ugcPosts'')
         \<lparr>req_headers := [(''Authorization'', ''Bearer li-token''),
                          (''Content-Type'', ''application/json''),
                          (''X-Restli-Protocol-Version'', ''2.0.0'')],
          req_json := PyDict
            [(''author'', PyStr ''urn:li:person:me''),
             (''lifecycleState'', PyStr ''PUBLISHED''),
             (''specificContent'', PyDict
                [(''com.linkedin.ugc.ShareContent'', PyDict
                    [(''shareCommentary'', PyDict [(''text'', PyStr ''Hello'')]),
                     (''shareMediaCategory'', PyStr ''NONE'')])]),
             (''visibility'', PyDict
                [(''com.linkedin.ugc.MemberNetworkVisibility'', PyStr ''PUBLIC'')])]\<rparr>])"
  by (simp add: LinkedInPublisher_publish_def env_ok_def settings_all_def created_linkedin_def
      post42_def new_post_def timestamped_def has_image_def linkedin_api_url_def Let_def
      str_int_def str_nat.simps)

lemma get_bearer_token_sent:
  "snd (get_bearer_token e) =
     [(request ''POST'' ''https://api.twitter.com/oauth2/token'')
        \<lparr>req_auth := Some (of_opt (TWITTER_API_KEY (settings e)),
                           of_opt (TWITTER_API_SECRET (settings e))),
         req_data := [(''grant_type'', PyStr ''client_credentials'')]\<rparr>]"
  by (simp add: get_bearer_token_def Let_def split: sum.splits)

lemma Twitter_sent:
  "snd (TwitterPublisher_publish e post) =
     (if \<not> twitter_configured e then []
      else if \<not> py_truthy (fst (get_bearer_token e)) then snd (get_bearer_token e)
      else snd (get_bearer_token e) @ [tweet_request e post (fst (get_bearer_token e))])"
  by (simp add: TwitterPublisher_publish_def tweet_request_def Let_def case_prod_beta
      split: sum.splits)

lemma Twitter_keys:
  "fst ` set (fst (TwitterPublisher_publish e post))
     \<subseteq> {''success'', ''error'', ''post_id'', ''post_url'', ''platform'', ''timestamp''}"
  by (simp add: TwitterPublisher_publish_def Let_def case_prod_beta failure_def timestamped_def
      split: sum.splits)

lemma tweet_request_text:
  "py_get (req_json (tweet_request e post tok)) ''text'' PyNone = Inr (PyStr (tweet_text post))"
  by (simp add: tweet_request_def request_def)

lemma twitter_bearer:
  "get_bearer_token env_twitter =
     (PyStr ''bearer'',
      [(request ''POST'' ''https://api.twitter.com/oauth2/token'')
         \<lparr>req_auth := Some (PyStr ''tw-key'', PyStr ''tw-secret''),
          req_data := [(''grant_type'', PyStr ''client_credentials'')]\<rparr>])"
  by (simp add: get_bearer_token_def env_twitter_def env_ok_def settings_all_def twitter_net_def
      request_def Let_def)

section \<open>The claims\<close>

text \<open>
  C1. Scenario: post 42 on LinkedIn is scheduled, its job fires, and the platform
  answers 201 with the id \<^verbatim>\<open>urn:li:share:123\<close>. The publisher returns a success
  result with that id and the URL
  \<^verbatim>\<open>https://www.linkedin.com/feed/update/urn:li:share:123\<close>, after one request. But
  \<^verbatim>\<open>publish_post\<close> then calls \<^verbatim>\<open>update\<close> on \<^verbatim>\<open>post.metadata\<close>, which is the table
  registry and not the column \<^verbatim>\<open>meta_data\<close>; the call raises, the function returns
  \<^verbatim>\<open>False\<close>, and nothing is committed: the stored post is still Scheduled, without
  external id, URL or published time.
\<close>

theorem publish_post_linkedin_success_not_recorded:
  "dict_get (fst (LinkedInPublisher_publish env_ok post42)) ''success'' = PyBool True
   \<and> dict_get (fst (LinkedInPublisher_publish env_ok post42)) ''post_id'' = PyStr ''urn:li:share:123''
   \<and> dict_get (fst (LinkedInPublisher_publish env_ok post42)) ''post_url''
       = PyStr ''https://www.linkedin.com/feed/update/urn:li:share:123''
   \<and> fst (publish_post env_ok (store_with_job post42 3600) 42 LINKEDIN) = False
   \<and> length (snd (snd (publish_post env_ok (store_with_job post42 3600) 42 LINKEDIN))) = 1
   \<and> db (fst (snd (publish_post env_ok (store_with_job post42 3600) 42 LINKEDIN))) 42 = Some post42
   \<and> status post42 = SCHEDULED
   \<and> external_id post42 = PyNone
   \<and> external_url post42 = PyNone
   \<and> published_time post42 = None"
proof -
  have sent: "snd (snd (publish_post env_ok (store_with_job post42 3600) 42 LINKEDIN))
                = snd (LinkedInPublisher_publish env_ok post42)"
    by (simp add: publish_post_def store_with_job_def post42_def new_post_def
        getattr_metadata_def Let_def split: prod.splits)
  have row: "db (store_with_job post42 3600) 42 = Some post42"
    by (simp add: store_with_job_def post42_def new_post_def)
  show ?thesis
    by (simp add: sent row publish_post_keeps_state publish_post_returns_False
        LinkedIn_created dict_get_def)
      (simp add: post42_def new_post_def)
qed

text \<open>
  C2. Claim: whenever \<^verbatim>\<open>schedule_post\<close> returns failure, the post's status, its
  scheduled time and its job are what they were before the call. The code commits the
  row before it registers the job, so this holds only of a failure of the commit.
  Amended: when \<^verbatim>\<open>schedule_post\<close> returns \<^verbatim>\<open>False\<close>, the job registry is unchanged;
  the stored post is unchanged if the commit raised, and otherwise (the job store
  raised) it is already stored as Scheduled with the new scheduled time.
\<close>

theorem schedule_post_failure:
  assumes "fst (schedule_post e st post t) = False"
  shows "jobs (snd (snd (schedule_post e st post t))) = jobs st
         \<and> db (snd (snd (schedule_post e st post t))) =
             (case commit_raises e of
                Some exn \<Rightarrow> db st
              | None \<Rightarrow> (db st)(pid post \<mapsto> post\<lparr>status := SCHEDULED, scheduled_time := Some t\<rparr>))"
  using assms
  by (simp add: schedule_post_def commit_def add_job_def Let_def split: option.splits)

theorem schedule_post_failure_witness:
  "fst (schedule_post env_jobstore_down (store draft7) draft7 5000) = False
   \<and> jobs (snd (snd (schedule_post env_jobstore_down (store draft7) draft7 5000))) = Map.empty
   \<and> db (snd (snd (schedule_post env_jobstore_down (store draft7) draft7 5000))) =
       [7 \<mapsto> draft7\<lparr>status := SCHEDULED, scheduled_time := Some 5000\<rparr>]
   \<and> fst (schedule_post env_commit_down (store draft7) draft7 5000) = False
   \<and> jobs (snd (snd (schedule_post env_commit_down (store draft7) draft7 5000))) = Map.empty
   \<and> db (snd (snd (schedule_post env_commit_down (store draft7) draft7 5000))) = [7 \<mapsto> draft7]"
proof -
  have a: "fst (schedule_post env_jobstore_down (store draft7) draft7 5000) = False"
    by (simp add: schedule_post_def commit_def add_job_def env_jobstore_down_def env_ok_def Let_def)
  have b: "fst (schedule_post env_commit_down (store draft7) draft7 5000) = False"
    by (simp add: schedule_post_def commit_def add_job_def env_commit_down_def env_ok_def Let_def)
  show ?thesis
    using a b schedule_post_failure [OF a] schedule_post_failure [OF b]
    by (simp add: env_jobstore_down_def env_commit_down_def env_ok_def store_def draft7_def
        new_post_def)
qed

text \<open>
  The claim as stated fails when the job store raises after the commit: the call
  returns \<^verbatim>\<open>False\<close>, and the draft is stored as Scheduled for the new time.
\<close>

theorem schedule_post_failure_counterexample:
  "fst (schedule_post env_jobstore_down (store draft7) draft7 5000) = False
   \<and> map_option status (db (store draft7) 7) = Some DRAFT
   \<and> map_option scheduled_time (db (store draft7) 7) = Some None
   \<and> map_option status
        (db (snd (snd (schedule_post env_jobstore_down (store draft7) draft7 5000))) 7)
       = Some SCHEDULED
   \<and> map_option scheduled_time
        (db (snd (snd (schedule_post env_jobstore_down (store draft7) draft7 5000))) 7)
       = Some (Some 5000)"
  by (simp add: schedule_post_def commit_def add_job_def env_jobstore_down_def env_ok_def
      store_def draft7_def new_post_def Let_def)

text \<open>
  C6. Claim: without a job for the post, \<^verbatim>\<open>reschedule_post\<close> fails with a
  NotFound-class error that the caller can tell from other failures; with a job, it
  updates the scheduled time and replaces the job's trigger time. The code returns a
  boolean: the \<^verbatim>\<open>JobLookupError\<close> is caught like every other exception.
  Amended: when neither store raises, \<^verbatim>\<open>reschedule_post\<close> stores the new scheduled
  time; then, without a job for the post it returns \<^verbatim>\<open>False\<close> (the value of every
  failure) and leaves the registry as it is, and with a job it returns \<^verbatim>\<open>True\<close> and
  the job keeps its arguments and gets the new trigger time.
\<close>

theorem reschedule_post_result:
  assumes "commit_raises e = None" and "jobstore_raises e = None"
  shows "reschedule_post e st post t =
           (case jobs st (job_id post) of
              None \<Rightarrow>
                (False, post\<lparr>scheduled_time := Some t\<rparr>,
                 st\<lparr>db := (db st)(pid post \<mapsto> post\<lparr>scheduled_time := Some t\<rparr>)\<rparr>)
            | Some j \<Rightarrow>
                (True, post\<lparr>scheduled_time := Some t\<rparr>,
                 st\<lparr>db := (db st)(pid post \<mapsto> post\<lparr>scheduled_time := Some t\<rparr>),
                    jobs := (jobs st)(job_id post \<mapsto> j\<lparr>run_date := t\<rparr>)\<rparr>))"
  using assms
  by (simp add: reschedule_post_def commit_def reschedule_job_def job_id_def Let_def
      split: option.splits)

theorem reschedule_post_result_witness:
  "commit_raises env_ok = None \<and> jobstore_raises env_ok = None
   \<and> reschedule_post env_ok (store post42) post42 7200 =
       (False, post42\<lparr>scheduled_time := Some 7200\<rparr>,
        \<lparr>db = [42 \<mapsto> post42\<lparr>scheduled_time := Some 7200\<rparr>], jobs = Map.empty\<rparr>)
   \<and> reschedule_post env_ok (store_with_job post42 3600) post42 7200 =
       (True, post42\<lparr>scheduled_time := Some 7200\<rparr>,
        \<lparr>db = [42 \<mapsto> post42\<lparr>scheduled_time := Some 7200\<rparr>],
         jobs = [''post_42_linkedin'' \<mapsto> \<lparr>run_date = 7200, args = (42, LINKEDIN)\<rparr>]\<rparr>)"
proof -
  have a: "commit_raises env_ok = None" and b: "jobstore_raises env_ok = None"
    by (simp_all add: env_ok_def)
  have p: "pid post42 = 42" and q: "platform post42 = LINKEDIN"
    by (simp_all add: post42_def new_post_def)
  show ?thesis
    using a b reschedule_post_result [OF a b, of "store post42" post42 7200]
      reschedule_post_result [OF a b, of "store_with_job post42 3600" post42 7200]
    by (simp add: store_def store_with_job_def job_id_42 p q)
qed

text \<open>
  The claim as stated fails on its first half: the failure for a missing job is the
  same \<^verbatim>\<open>False\<close> as the failure of a commit for a post that has a job, and it comes
  after the new scheduled time has been stored.
\<close>

theorem reschedule_post_not_found_counterexample:
  "jobs (store post42) (job_id post42) = None
   \<and> fst (reschedule_post env_ok (store post42) post42 7200) = False
   \<and> jobs (store_with_job post42 3600) (job_id post42) \<noteq> None
   \<and> fst (reschedule_post env_commit_down (store_with_job post42 3600) post42 7200) = False
   \<and> map_option scheduled_time (db (store post42) 42) = Some (Some 3600)
   \<and> map_option scheduled_time
        (db (snd (snd (reschedule_post env_ok (store post42) post42 7200))) 42)
       = Some (Some 7200)"
  by (simp add: reschedule_post_def commit_def reschedule_job_def env_commit_down_def
      env_ok_def store_def store_with_job_def post42_def new_post_def Let_def)

text \<open>
  C7. Claim: cancelling a post that has no job is rejected without any change of
  state. The code sets the status to Draft, clears the scheduled time and commits
  before it asks the registry to remove the job.
  Amended: \<^verbatim>\<open>cancel_post\<close> on a post without a job returns \<^verbatim>\<open>False\<close> without raising
  and leaves the job registry as it is; unless the commit raised, the post is by then
  stored with status Draft and no scheduled time.
\<close>

theorem cancel_post_without_job:
  assumes "jobs st (job_id post) = None"
  shows "cancel_post e st post =
           (False, post\<lparr>status := DRAFT, scheduled_time := None\<rparr>,
            (case commit_raises e of
               Some exn \<Rightarrow> st
             | None \<Rightarrow> st\<lparr>db := (db st)(pid post \<mapsto> post\<lparr>status := DRAFT, scheduled_time := None\<rparr>)\<rparr>))"
  using assms
  by (simp add: cancel_post_def commit_def remove_job_def job_id_def Let_def
      split: option.splits)

theorem cancel_post_without_job_witness:
  "jobs (store approved5) (job_id approved5) = None
   \<and> cancel_post env_ok (store approved5) approved5 =
       (False, approved5\<lparr>status := DRAFT, scheduled_time := None\<rparr>,
        \<lparr>db = [5 \<mapsto> approved5\<lparr>status := DRAFT, scheduled_time := None\<rparr>], jobs = Map.empty\<rparr>)
   \<and> cancel_post env_commit_down (store approved5) approved5 =
       (False, approved5\<lparr>status := DRAFT, scheduled_time := None\<rparr>, store approved5)"
proof -
  have a: "jobs (store approved5) (job_id approved5) = None"
    by (simp add: store_def)
  have p: "pid approved5 = 5"
    by (simp add: approved5_def new_post_def)
  show ?thesis
    using a cancel_post_without_job [OF a, of env_ok]
      cancel_post_without_job [OF a, of env_commit_down]
    by (simp add: env_commit_down_def env_ok_def p) (simp add: store_def p)
qed

text \<open>
  The claim as stated fails for an approved post that was never scheduled: the cancel
  returns \<^verbatim>\<open>False\<close>, and the post is stored as Draft.
\<close>

theorem cancel_post_never_scheduled_counterexample:
  "jobs (store approved5) (job_id approved5) = None
   \<and> fst (cancel_post env_ok (store approved5) approved5) = False
   \<and> map_option status (db (store approved5) 5) = Some APPROVED
   \<and> map_option status (db (snd (snd (cancel_post env_ok (store approved5) approved5))) 5)
       = Some DRAFT"
  by (simp add: cancel_post_def commit_def remove_job_def env_ok_def store_def approved5_def
      new_post_def Let_def)

text \<open>
  C10. \<^verbatim>\<open>schedule_post\<close> does not look at the status of the post. For every post,
  whatever its status, when neither store raises it returns \<^verbatim>\<open>True\<close>, stores the post
  as Scheduled with the given time, and stores the job for its id with that trigger
  time and the arguments (post id, platform), replacing the job that was there. The
  endpoint \<^verbatim>\<open>POST /{post_id}/schedule\<close> adds no check of the status either: for a
  stored post and a time that parses, it answers with the scheduled post.
\<close>

theorem schedule_post_any_status:
  assumes "commit_raises e = None" and "jobstore_raises e = None"
  shows "schedule_post e st post t =
           (True, post\<lparr>status := SCHEDULED, scheduled_time := Some t\<rparr>,
            st\<lparr>db := (db st)(pid post \<mapsto> post\<lparr>status := SCHEDULED, scheduled_time := Some t\<rparr>),
               jobs := (jobs st)(job_id post \<mapsto> \<lparr>run_date = t, args = (pid post, platform post)\<rparr>)\<rparr>)
         \<and> (db st i = Some post \<and> s \<noteq> [] \<and> fromisoformat e (replace_Z s) = Inr t \<longrightarrow>
              schedule_post_endpoint e st i [(''publish_time'', PyStr s)] =
                (Response
                   [(''post_id'', PyInt (pid post)),
                    (''platform'', PyStr (platform_value (platform post))),
                    (''scheduled_time'', PyStr (isoformat e t)),
                    (''message'', PyStr (''Successfully scheduled post for '' @ s))],
                 st\<lparr>db := (db st)(pid post \<mapsto> post\<lparr>status := SCHEDULED, scheduled_time := Some t\<rparr>),
                    jobs := (jobs st)(job_id post \<mapsto> \<lparr>run_date = t, args = (pid post, platform post)\<rparr>)\<rparr>))"
proof -
  have sched: "schedule_post e st post t =
           (True, post\<lparr>status := SCHEDULED, scheduled_time := Some t\<rparr>,
            st\<lparr>db := (db st)(pid post \<mapsto> post\<lparr>status := SCHEDULED, scheduled_time := Some t\<rparr>),
               jobs := (jobs st)(job_id post \<mapsto> \<lparr>run_date = t, args = (pid post, platform post)\<rparr>)\<rparr>)"
    using assms
    by (simp add: schedule_post_def commit_def add_job_def job_id_def Let_def)
  show ?thesis
    by (simp add: sched schedule_post_endpoint_def dict_get_def Let_def)
qed

theorem schedule_post_any_status_witness:
  "commit_raises env_ok = None \<and> jobstore_raises env_ok = None
   \<and> status published9 = PUBLISHED
   \<and> db (store_with_job published9 100) 9 = Some published9
   \<and> fromisoformat env_ok (replace_Z ''2030-01-01T00:00:00Z'') = Inr 9000
   \<and> schedule_post env_ok (store_with_job published9 100) published9 9000 =
       (True, published9\<lparr>status := SCHEDULED, scheduled_time := Some 9000\<rparr>,
        \<lparr>db = [9 \<mapsto> published9\<lparr>status := SCHEDULED, scheduled_time := Some 9000\<rparr>],
         jobs = [''post_9_twitter'' \<mapsto> \<lparr>run_date = 9000, args = (9, TWITTER)\<rparr>]\<rparr>)
   \<and> schedule_post_endpoint env_ok (store_with_job published9 100) 9
         [(''publish_time'', PyStr ''2030-01-01T00:00:00Z'')] =
       (Response
          [(''post_id'', PyInt 9), (''platform'', PyStr ''twitter''),
           (''scheduled_time'', PyStr ''9000''),
           (''message'', PyStr ''Successfully scheduled post for 2030-01-01T00:00:00Z'')],
        \<lparr>db = [9 \<mapsto> published9\<lparr>status := SCHEDULED, scheduled_time := Some 9000\<rparr>],
         jobs = [''post_9_twitter'' \<mapsto> \<lparr>run_date = 9000, args = (9, TWITTER)\<rparr>]\<rparr>)"
proof -
  have a: "commit_raises env_ok = None" and b: "jobstore_raises env_ok = None"
    by (simp_all add: env_ok_def)
  have p: "pid published9 = 9" and q: "platform published9 = TWITTER"
    and r: "status published9 = PUBLISHED"
    by (simp_all add: published9_def new_post_def)
  have j: "job_id published9 = ''post_9_twitter''"
    by (simp add: job_id_def p q str_int_def str_nat.simps)
  have z: "fromisoformat env_ok (replace_Z ''2030-01-01T00:00:00Z'') = Inr 9000"
    by (simp add: env_ok_def replace_Z_def)
  have iso: "isoformat env_ok 9000 = ''9000''"
    by (simp add: env_ok_def str_int_def str_nat.simps)
  show ?thesis
    using a b r z
      schedule_post_any_status [OF a b, of "store_with_job published9 100" published9 9000 9
        "''2030-01-01T00:00:00Z''"]
    by (simp add: store_with_job_def p q j iso)
qed

text \<open>
  C5. \<^verbatim>\<open>publish_now\<close> on a post that is already Published is rejected: the endpoint
  raises \<^verbatim>\<open>HTTPException\<close> with status 400 and the detail that the post is already
  published, sends no request and leaves both stores as they are. So does
  \<^verbatim>\<open>publish_post\<close> itself when it is called for such a post: it returns \<^verbatim>\<open>False\<close>
  before it reaches a publisher.
\<close>

theorem publish_now_published_rejected:
  assumes "db st i = Some post" and "status post = PUBLISHED"
  shows "publish_post_now e st i =
           (HTTPException 400 (''Post with ID '' @ str_int i @ '' is already published''), st, [])
         \<and> publish_post e st i pf = (False, st, [])"
  using assms by (simp add: publish_post_now_def publish_post_def)

theorem publish_now_published_rejected_witness:
  "db (store published9) 9 = Some published9 \<and> status published9 = PUBLISHED
   \<and> publish_post_now env_twitter (store published9) 9 =
       (HTTPException 400 ''Post with ID 9 is already published'', store published9, [])
   \<and> publish_post env_twitter (store published9) 9 TWITTER = (False, store published9, [])"
proof -
  have a: "db (store published9) 9 = Some published9"
    by (simp add: store_def published9_def new_post_def)
  have b: "status published9 = PUBLISHED"
    by (simp add: published9_def new_post_def)
  show ?thesis
    using a b publish_now_published_rejected [OF a b, of env_twitter TWITTER]
    by (simp add: str_int_def str_nat.simps)
qed



text \<open>
  C4. The Twitter publisher submits a body of more than 280 characters as exactly
  280 characters, the first 277 of the body followed by \<^verbatim>\<open>...\<close>, and a body of at
  most 280 characters as it is. Every request that \<^verbatim>\<open>publish\<close> sends to
  \<^verbatim>\<open>/tweets\<close> carries that text, and no result of \<^verbatim>\<open>publish\<close> has a key other than
  \<^verbatim>\<open>success\<close>, \<^verbatim>\<open>error\<close>, \<^verbatim>\<open>post_id\<close>, \<^verbatim>\<open>post_url\<close>, \<^verbatim>\<open>platform\<close> and
  \<^verbatim>\<open>timestamp\<close>: the truncation is not reported.
\<close>

theorem twitter_truncation:
  "(length (text_content post) > 280 \<longrightarrow>
      length (tweet_text post) = 280
      \<and> take 277 (tweet_text post) = take 277 (text_content post)
      \<and> drop 277 (tweet_text post) = ''...'')
   \<and> (length (text_content post) \<le> 280 \<longrightarrow> tweet_text post = text_content post)
   \<and> (\<forall>r \<in> set (snd (TwitterPublisher_publish e post)).
         req_url r = twitter_api_url @ ''/tweets'' \<longrightarrow>
         py_get (req_json r) ''text'' PyNone = Inr (PyStr (tweet_text post)))
   \<and> fst ` set (fst (TwitterPublisher_publish e post))
         \<subseteq> {''success'', ''error'', ''post_id'', ''post_url'', ''platform'', ''timestamp''}"
proof -
  have long: "length (text_content post) > 280 \<longrightarrow>
      length (tweet_text post) = 280
      \<and> take 277 (tweet_text post) = take 277 (text_content post)
      \<and> drop 277 (tweet_text post) = ''...''"
    by (simp add: tweet_text_def)
  have short: "length (text_content post) \<le> 280 \<longrightarrow> tweet_text post = text_content post"
    by (simp add: tweet_text_def)
  have sent: "py_get (req_json r) ''text'' PyNone = Inr (PyStr (tweet_text post))"
    if r: "r \<in> set (snd (TwitterPublisher_publish e post))"
      and url: "req_url r = twitter_api_url @ ''/tweets''" for r
  proof -
    have "r \<in> set (snd (get_bearer_token e)) \<or> r = tweet_request e post (fst (get_bearer_token e))"
      using r by (auto simp add: Twitter_sent split: if_splits)
    moreover have "r \<notin> set (snd (get_bearer_token e))"
      using url by (auto simp add: get_bearer_token_sent request_def twitter_api_url_def)
    ultimately show ?thesis
      by (simp add: tweet_request_text)
  qed
  from long short sent Twitter_keys [of e post] show ?thesis
    by blast
qed

theorem twitter_truncation_witness:
  "length (text_content long3) > 280
   \<and> length (tweet_text long3) = 280
   \<and> take 277 (tweet_text long3) = take 277 (text_content long3)
   \<and> tweet_text long3 = replicate 277 CHR ''a'' @ ''...''
   \<and> length (text_content draft7) \<le> 280
   \<and> tweet_text draft7 = ''Hi''
   \<and> tweet_request env_twitter long3 (PyStr ''bearer'')
        \<in> set (snd (TwitterPublisher_publish env_twitter long3))
   \<and> req_url (tweet_request env_twitter long3 (PyStr ''bearer'')) = twitter_api_url @ ''/tweets''
   \<and> py_get (req_json (tweet_request env_twitter long3 (PyStr ''bearer''))) ''text'' PyNone
       = Inr (PyStr (replicate 277 CHR ''a'' @ ''...''))"
proof -
  have a: "length (text_content long3) > 280"
    by (simp add: long3_def new_post_def)
  have b: "length (text_content draft7) \<le> 280"
    by (simp add: draft7_def new_post_def)
  have c: "tweet_request env_twitter long3 (PyStr ''bearer'')
             \<in> set (snd (TwitterPublisher_publish env_twitter long3))"
  proof -
    have "twitter_configured env_twitter"
      by (simp add: twitter_configured_def env_twitter_def env_ok_def settings_all_def)
    then show ?thesis
      by (simp add: Twitter_sent twitter_bearer)
  qed
  have d: "req_url (tweet_request env_twitter long3 (PyStr ''bearer'')) = twitter_api_url @ ''/tweets''"
    by (simp add: tweet_request_def request_def)
  have t: "tweet_text long3 = replicate 277 CHR ''a'' @ ''...''"
    by (simp add: tweet_text_def long3_def new_post_def)
  have s: "tweet_text draft7 = ''Hi''"
    by (simp add: tweet_text_def draft7_def new_post_def)
  show ?thesis
    using a b c d twitter_truncation [of long3 env_twitter] twitter_truncation [of draft7 env_twitter]
    by (simp add: t s)
qed




end
